theory Spec2Isabelle
  imports
    Complex_Main
    "HOL-Library.List_Lexorder"
    "HOL-Library.AList"
    "HOL-Library.Multiset"
begin

section \<open>Strings\<close>

text \<open>
  A string of JavaScript is a sequence of UTF-16 code units, here a list of natural numbers
  (below 65536; nothing depends on the bound). \<open>s.substring(0, 7)\<close> is \<open>take 7 s\<close>, and the
  order of lists (the lexicographic order of the code units) is the order that \<^verbatim>\<open><\<close> has on
  strings. \<open>ascii\<close> writes a literal of the source.
\<close>

type_synonym jsstring = "nat list"

definition ascii :: "string \<Rightarrow> jsstring" where
  "ascii s = map of_char s"

section \<open>The analytics computation\<close>

text \<open>
  The analytics are computed twice in the repository, by the handler of GET /analytics on the
  server and by \<open>calculateAnalytics\<close> in the client's local mode. Both read a transaction
  through the fields that the client's \<open>Transaction\<close> interface declares:
  \<^verbatim>\<open>type: 'income' | 'expense'\<close>, \<^verbatim>\<open>amount: number\<close>, \<^verbatim>\<open>category: string\<close>,
  \<^verbatim>\<open>date: string\<close>. Amounts are real numbers here: the arithmetic is exact, and the rounding
  of IEEE doubles is not modelled.
\<close>

datatype tx_type = Income | Expense

text \<open>The object that the server keeps under a key: a transaction without its id.\<close>

record tx_value =
  type :: tx_type
  amount :: real
  category :: jsstring
  description :: jsstring
  date :: jsstring
  createdAt :: jsstring
  source :: jsstring
  vendor :: "jsstring option"

text \<open>The client's \<open>Transaction\<close>: the stored fields and the id (\<open>ident\<close>, since \<open>id\<close> is
  the identity function of HOL).\<close>

record Transaction = tx_value +
  ident :: jsstring

definition value_of :: "Transaction \<Rightarrow> tx_value" where
  "value_of t =
     \<lparr>type = type t, amount = amount t, category = category t, description = description t,
      date = date t, createdAt = createdAt t, source = source t, vendor = vendor t\<rparr>"

record month_entry =
  month :: jsstring
  income :: real
  expense :: real

subsection \<open>An object literal used as a dictionary\<close>

text \<open>
  Both accumulators start as \<^verbatim>\<open>{}\<close>, an ordinary object: it has the properties given to it,
  its own, and it inherits those of \<^verbatim>\<open>Object.prototype\<close>. An object is the list of its own
  properties in the order of their creation. Reading \<^verbatim>\<open>acc[k]\<close> finds an own property, else
  an inherited one, else \<open>undefined\<close>.
\<close>

definition Object_prototype :: "jsstring list" where
  "Object_prototype =
     map ascii
       [''constructor'', ''__defineGetter__'', ''__defineSetter__'', ''hasOwnProperty'',
        ''__lookupGetter__'', ''__lookupSetter__'', ''isPrototypeOf'', ''propertyIsEnumerable'',
        ''toString'', ''valueOf'', ''__proto__'', ''toLocaleString'']"

definition inherited :: "jsstring \<Rightarrow> bool" where
  "inherited k = (k \<in> set Object_prototype)"

datatype 'v property = Own 'v | Inherited jsstring | Absent

definition read :: "(jsstring \<times> 'v) list \<Rightarrow> jsstring \<Rightarrow> 'v property" where
  "read acc k =
     (case map_of acc k of
        Some v \<Rightarrow> Own v
      | None \<Rightarrow> if inherited k then Inherited k else Absent)"

text \<open>
  The values of \<open>expensesByCategory\<close>. The inherited values are functions, and the object
  \<^verbatim>\<open>Object.prototype\<close> under \<^verbatim>\<open>__proto__\<close>: they are truthy, and \<^verbatim>\<open>+\<close> turns them into their
  text and appends the text of the amount. \<open>Text k as\<close> is the string so built from the value
  inherited under \<open>k\<close> and the amounts \<open>as\<close>, in this order; it is not empty.
\<close>

datatype catval = Number real | Text jsstring "real list"

text \<open>\<^verbatim>\<open>(acc[k] || 0) + amount\<close>: \<open>undefined\<close> and \<open>0\<close> are falsy.\<close>

fun or_zero_plus :: "catval property \<Rightarrow> real \<Rightarrow> catval" where
  "or_zero_plus (Own (Number x)) a = Number ((if x = 0 then 0 else x) + a)"
| "or_zero_plus (Own (Text k as)) a = Text k (as @ [a])"
| "or_zero_plus (Inherited k) a = Text k [a]"
| "or_zero_plus Absent a = Number (0 + a)"

text \<open>
  \<^verbatim>\<open>acc[k] = v\<close> for a number or a string \<open>v\<close>: the property is made or changed, but under
  \<^verbatim>\<open>__proto__\<close> the assignment calls the setter that \<^verbatim>\<open>Object.prototype\<close> has for this name,
  which does nothing with a value that is not an object.
\<close>

definition assign :: "(jsstring \<times> catval) list \<Rightarrow> jsstring \<Rightarrow> catval \<Rightarrow> (jsstring \<times> catval) list" where
  "assign acc k v = (if k = ascii ''__proto__'' then acc else AList.update k v acc)"

text \<open>\<^verbatim>\<open>entry[t.type] += t.amount\<close>: the type names the field that grows.\<close>

fun add_to :: "tx_type \<Rightarrow> real \<Rightarrow> month_entry \<Rightarrow> month_entry" where
  "add_to Income a e = e\<lparr>income := income e + a\<rparr>"
| "add_to Expense a e = e\<lparr>expense := expense e + a\<rparr>"

text \<open>
  The order in which the own properties of an object are enumerated (\<^verbatim>\<open>Object.values\<close>,
  \<^verbatim>\<open>JSON.stringify\<close>): first the array indices, which are the canonical decimal texts of the
  integers below \<open>2\<^sup>3\<^sup>2 - 1\<close>, in ascending order, then the other names in the order of
  their creation.
\<close>

definition is_digit :: "nat \<Rightarrow> bool" where
  "is_digit u = (48 \<le> u \<and> u \<le> 57)"

definition digits_value :: "jsstring \<Rightarrow> nat" where
  "digits_value ds = foldl (\<lambda>n d. 10 * n + (d - 48)) 0 ds"

definition array_index :: "jsstring \<Rightarrow> bool" where
  "array_index k =
     (k \<noteq> [] \<and> list_all is_digit k \<and> (k = [48] \<or> take 1 k \<noteq> [48])
      \<and> digits_value k < 4294967295)"

definition own_entries :: "(jsstring \<times> 'v) list \<Rightarrow> (jsstring \<times> 'v) list" where
  "own_entries ps =
     sort_key (\<lambda>p. digits_value (fst p)) (filter (\<lambda>p. array_index (fst p)) ps)
     @ filter (\<lambda>p. \<not> array_index (fst p)) ps"

text \<open>
  \<^verbatim>\<open>xs.sort(cmp)\<close>. The sort is stable, and \<^verbatim>\<open>localeCompare\<close> is a consistent comparison
  (the language requires it); the result is then the stable sorted list, which insertion
  computes: an element goes before the first one that it does not follow.
\<close>

fun insert_by :: "('a \<Rightarrow> 'a \<Rightarrow> int) \<Rightarrow> 'a \<Rightarrow> 'a list \<Rightarrow> 'a list" where
  "insert_by cmp x [] = [x]"
| "insert_by cmp x (y # ys) = (if cmp x y \<le> 0 then x # y # ys else y # insert_by cmp x ys)"

definition js_sort :: "('a \<Rightarrow> 'a \<Rightarrow> int) \<Rightarrow> 'a list \<Rightarrow> 'a list" where
  "js_sort cmp xs = foldr (insert_by cmp) xs []"

subsection \<open>The two copies\<close>

record Analytics =
  totalIncome :: real
  totalExpense :: real
  balance :: real
  expensesByCategory :: "(jsstring \<times> catval) list"
  monthlyData :: "month_entry list"

text \<open>
  The handler of GET /analytics, from the result of \<^verbatim>\<open>kv.getByPrefix('transaction:')\<close>, a
  list of keys and values, to the object it answers with. \<open>localeCompare\<close> is the collation of
  the platform, \<^verbatim>\<open>a.localeCompare(b)\<close>: negative, zero or positive. In the second reducer,
  \<^verbatim>\<open>!acc[month]\<close> holds of a month that is absent only, and \<^verbatim>\<open>acc[month][t.type] += t.amount\<close>
  changes the entry of the month when \<open>acc\<close> has one; under an inherited name it writes to the
  inherited function and leaves \<open>acc\<close> as it is. This is the block under \<^verbatim>\<open>try\<close>, after the
  scan of the store has returned; when the scan throws, the handler answers 500 with
  \<^verbatim>\<open>Failed to fetch analytics\<close> and computes nothing.
\<close>

definition analytics_handler ::
  "(jsstring \<Rightarrow> jsstring \<Rightarrow> int) \<Rightarrow> (jsstring \<times> tx_value) list \<Rightarrow> Analytics" where
  "analytics_handler localeCompare transactions =
     (let transactionData = map snd transactions;
          totalIncome' =
            foldl (\<lambda>sum t. sum + amount t) 0 (filter (\<lambda>t. type t = Income) transactionData);
          totalExpense' =
            foldl (\<lambda>sum t. sum + amount t) 0 (filter (\<lambda>t. type t = Expense) transactionData);
          expensesByCategory' =
            foldl (\<lambda>acc t.
                assign acc (category t) (or_zero_plus (read acc (category t)) (amount t)))
              [] (filter (\<lambda>t. type t = Expense) transactionData);
          monthlyData' =
            foldl (\<lambda>acc t.
                let month' = take 7 (date t);
                    acc' = (case read acc month' of
                              Absent \<Rightarrow>
                                AList.update month' \<lparr>month = month', income = 0, expense = 0\<rparr> acc
                            | _ \<Rightarrow> acc)
                in (case read acc' month' of
                      Own entry \<Rightarrow> AList.update month' (add_to (type t) (amount t) entry) acc'
                    | _ \<Rightarrow> acc'))
              [] transactionData
      in \<lparr>totalIncome = totalIncome',
          totalExpense = totalExpense',
          balance = totalIncome' - totalExpense',
          expensesByCategory = own_entries expensesByCategory',
          monthlyData =
            js_sort (\<lambda>a b. localeCompare (month a) (month b))
              (map snd (own_entries monthlyData'))\<rparr>)"

text \<open>\<open>calculateAnalytics\<close> of the client, over the transactions of the local store.\<close>

definition calculateAnalytics ::
  "(jsstring \<Rightarrow> jsstring \<Rightarrow> int) \<Rightarrow> Transaction list \<Rightarrow> Analytics" where
  "calculateAnalytics localeCompare transactions =
     (let totalIncome' =
            foldl (\<lambda>sum t. sum + amount t) 0 (filter (\<lambda>t. type t = Income) transactions);
          totalExpense' =
            foldl (\<lambda>sum t. sum + amount t) 0 (filter (\<lambda>t. type t = Expense) transactions);
          expensesByCategory' =
            foldl (\<lambda>acc t.
                assign acc (category t) (or_zero_plus (read acc (category t)) (amount t)))
              [] (filter (\<lambda>t. type t = Expense) transactions);
          monthlyData' =
            foldl (\<lambda>acc t.
                let month' = take 7 (date t);
                    acc' = (case read acc month' of
                              Absent \<Rightarrow>
                                AList.update month' \<lparr>month = month', income = 0, expense = 0\<rparr> acc
                            | _ \<Rightarrow> acc)
                in (case read acc' month' of
                      Own entry \<Rightarrow> AList.update month' (add_to (type t) (amount t) entry) acc'
                    | _ \<Rightarrow> acc'))
              [] transactions
      in \<lparr>totalIncome = totalIncome',
          totalExpense = totalExpense',
          balance = totalIncome' - totalExpense',
          expensesByCategory = own_entries expensesByCategory',
          monthlyData =
            js_sort (\<lambda>a b. localeCompare (month a) (month b))
              (map snd (own_entries monthlyData'))\<rparr>)"

text \<open>The store's rows for a list of the client's transactions: each under the key
  \<^verbatim>\<open>transaction:<id>\<close>, without the id.\<close>

definition rows_of :: "Transaction list \<Rightarrow> (jsstring \<times> tx_value) list" where
  "rows_of ts = map (\<lambda>t. (ascii ''transaction:'' @ ident t, value_of t)) ts"

text \<open>The two callbacks that both copies hand to \<^verbatim>\<open>reduce\<close>, under a name for the proofs.\<close>

definition expense_step ::
  "(jsstring \<times> catval) list \<Rightarrow> 'a tx_value_scheme \<Rightarrow> (jsstring \<times> catval) list" where
  "expense_step acc t =
     assign acc (category t) (or_zero_plus (read acc (category t)) (amount t))"

definition month_step ::
  "(jsstring \<times> month_entry) list \<Rightarrow> 'a tx_value_scheme \<Rightarrow> (jsstring \<times> month_entry) list" where
  "month_step acc t =
     (let month' = take 7 (date t);
          acc' = (case read acc month' of
                    Absent \<Rightarrow>
                      AList.update month' \<lparr>month = month', income = 0, expense = 0\<rparr> acc
                  | _ \<Rightarrow> acc)
      in (case read acc' month' of
            Own entry \<Rightarrow> AList.update month' (add_to (type t) (amount t) entry) acc'
          | _ \<Rightarrow> acc'))"

subsection \<open>Collations and transactions for the examples\<close>




definition example_tx :: "tx_type \<Rightarrow> real \<Rightarrow> string \<Rightarrow> string \<Rightarrow> Transaction" where
  "example_tx ty a c d =
     \<lparr>type = ty, amount = a, category = ascii c, description = [], date = ascii d,
      createdAt = [], source = ascii ''manual'', vendor = None, ident = ascii d\<rparr>"

section \<open>The values of the handlers\<close>

text \<open>
  A handler of the server reads what a request or the classifier sent, which is any JSON, and
  JavaScript decides by truthiness and converts with \<^verbatim>\<open>parseFloat\<close>. The values are
  those of JavaScript that the handlers can meet: the JSON values, \<open>undefined\<close>, and the
  numbers that are not finite. A finite number is a real number. An object is the list of
  its own properties in the order of enumeration; objects made by \<^verbatim>\<open>JSON.parse\<close> and by
  object literals have no other.
\<close>

datatype number = Finite real | NaN | PosInfinity | NegInfinity

datatype jsval =
    Undefined
  | Null
  | Bool bool
  | Num number
  | Str jsstring
  | Arr "jsval list"
  | Obj "(jsstring \<times> jsval) list"

text \<open>An exception, with its \<^verbatim>\<open>message\<close>.\<close>

datatype exn = Error jsstring

fun message :: "exn \<Rightarrow> jsstring" where
  "message (Error m) = m"

text \<open>\<^verbatim>\<open>!v\<close> is \<open>\<not> truthy v\<close>.\<close>

fun truthy :: "jsval \<Rightarrow> bool" where
  "truthy Undefined = False"
| "truthy Null = False"
| "truthy (Bool b) = b"
| "truthy (Num n) = (n \<noteq> Finite 0 \<and> n \<noteq> NaN)"
| "truthy (Str s) = (s \<noteq> [])"
| "truthy (Arr xs) = True"
| "truthy (Obj fs) = True"

text \<open>\<^verbatim>\<open>a || b\<close>.\<close>

definition js_or :: "jsval \<Rightarrow> jsval \<Rightarrow> jsval" where
  "js_or a b = (if truthy a then a else b)"

definition nullish :: "jsval \<Rightarrow> bool" where
  "nullish v = (v = Undefined \<or> v = Null)"

text \<open>
  \<^verbatim>\<open>v.name\<close> on a value that is neither \<open>null\<close> nor \<open>undefined\<close>, for the names that the
  handlers read (\<open>type\<close>, \<open>amount\<close>, \<open>total\<close>, \<open>candidates\<close>, ...): none of them is a
  property of a prototype, so only an object can have one.
\<close>

fun get :: "jsval \<Rightarrow> jsstring \<Rightarrow> jsval" where
  "get (Obj fs) name = (case map_of fs name of None \<Rightarrow> Undefined | Some v \<Rightarrow> v)"
| "get _ name = Undefined"

text \<open>\<^verbatim>\<open>v?.name\<close> and \<^verbatim>\<open>v?.[0]\<close>.\<close>

definition opt_get :: "jsval \<Rightarrow> jsstring \<Rightarrow> jsval" where
  "opt_get v name = (if nullish v then Undefined else get v name)"

fun at0 :: "jsval \<Rightarrow> jsval" where
  "at0 (Arr xs) = (case xs of [] \<Rightarrow> Undefined | x # _ \<Rightarrow> x)"
| "at0 (Str s) = (case s of [] \<Rightarrow> Undefined | c # _ \<Rightarrow> Str [c])"
| "at0 (Obj fs) = get (Obj fs) (ascii ''0'')"
| "at0 _ = Undefined"

definition opt_at0 :: "jsval \<Rightarrow> jsval" where
  "opt_at0 v = (if nullish v then Undefined else at0 v)"

text \<open>The decimal text of a natural number, as a template literal prints \<^verbatim>\<open>Date.now()\<close>, a
  status or an index.\<close>

fun show_nat :: "nat \<Rightarrow> jsstring" where
  "show_nat n = (if n < 10 then [48 + n] else show_nat (n div 10) @ [48 + n mod 10])"

declare show_nat.simps [simp del]

text \<open>The own properties that a spread \<^verbatim>\<open>{...v}\<close> copies, and \<^verbatim>\<open>{base, ...v}\<close>: a property of
  \<open>v\<close> replaces that of the same name.\<close>

fun own_props :: "jsval \<Rightarrow> (jsstring \<times> jsval) list" where
  "own_props (Obj fs) = fs"
| "own_props (Arr xs) = zip (map show_nat [0..<length xs]) xs"
| "own_props (Str s) = zip (map show_nat [0..<length s]) (map (\<lambda>c. Str [c]) s)"
| "own_props _ = []"

definition spread :: "(jsstring \<times> jsval) list \<Rightarrow> jsval \<Rightarrow> jsval" where
  "spread base v =
     Obj (own_entries (foldl (\<lambda>obj f. AList.update (fst f) (snd f) obj) base (own_props v)))"

text \<open>\<^verbatim>\<open>s.replace(p, '')\<close> with a string \<open>p\<close>: the first occurrence goes.\<close>

fun remove_first :: "jsstring \<Rightarrow> jsstring \<Rightarrow> jsstring" where
  "remove_first p [] = []"
| "remove_first p (c # cs) =
     (if take (length p) (c # cs) = p then drop (length p) (c # cs)
      else c # remove_first p cs)"

text \<open>
  \<^verbatim>\<open>s.trim()\<close> takes the white space and the line terminators from both ends: TAB, LF, VT,
  FF, CR, the space, the no-break space, U+1680, U+2000 to U+200A, U+2028, U+2029, U+202F,
  U+205F, U+3000 and U+FEFF.
\<close>

definition is_ws :: "nat \<Rightarrow> bool" where
  "is_ws u =
     (u \<in> set [9, 10, 11, 12, 13, 32, 160, 5760, 8232, 8233, 8239, 8287, 12288, 65279]
      \<or> (8192 \<le> u \<and> u \<le> 8202))"

definition trim :: "jsstring \<Rightarrow> jsstring" where
  "trim s = rev (dropWhile is_ws (rev (dropWhile is_ws s)))"

text \<open>
  The conversion of a value to a string fails on an object with a property \<open>toString\<close> of
  its own: a value of JSON is not callable, and the inherited \<open>valueOf\<close> returns the object.
  An array converts every element.
\<close>

fun stringifiable :: "jsval \<Rightarrow> bool" where
  "stringifiable (Arr xs) = list_all stringifiable xs"
| "stringifiable (Obj fs) = (map_of fs (ascii ''toString'') = None)"
| "stringifiable _ = True"

text \<open>What \<^verbatim>\<open>JSON.stringify\<close> keeps of a value: a number that is not finite becomes \<open>null\<close>, an
  \<open>undefined\<close> element of an array too, and a property that is \<open>undefined\<close> is left out.\<close>

fun jsonify :: "jsval \<Rightarrow> jsval" where
  "jsonify (Num n) = (case n of Finite x \<Rightarrow> Num (Finite x) | _ \<Rightarrow> Null)"
| "jsonify (Arr xs) = Arr (map (\<lambda>x. if x = Undefined then Null else jsonify x) xs)"
| "jsonify (Obj fs) =
     Obj (map (\<lambda>f. (fst f, jsonify (snd f))) (filter (\<lambda>f. snd f \<noteq> Undefined) fs))"
| "jsonify v = v"

text \<open>The values that JSON can write: what a parsed text is.\<close>

fun json_value :: "jsval \<Rightarrow> bool" where
  "json_value Null = True"
| "json_value (Bool b) = True"
| "json_value (Num n) = (case n of Finite x \<Rightarrow> True | _ \<Rightarrow> False)"
| "json_value (Str s) = True"
| "json_value (Arr xs) = list_all json_value xs"
| "json_value (Obj fs) = list_all (\<lambda>f. json_value (snd f)) fs"
| "json_value Undefined = False"

section \<open>The platform and the store\<close>

text \<open>
  What the platform gives a handler during one request: the clock and the random source, the
  environment, the answer of the classifier to \<^verbatim>\<open>fetch\<close>, the parser of JSON, the reader of
  numbers, and whether the store fails. The text of a \<open>TypeError\<close> is chosen by the engine: it
  is given for the expression that failed.
\<close>

record fetch_response =
  ok :: bool
  status :: nat
  json :: "exn + jsval"

record platform =
  now :: nat
  random36 :: jsstring
  isoDate :: jsstring
  isoCreatedAt :: jsstring
  apiKey :: "jsstring option"
  fetched :: "exn + fetch_response"
  JSON_parse :: "jsstring \<Rightarrow> jsval option"
  parseFloat_text :: "jsstring \<Rightarrow> number"
  storeError :: "jsstring option"
  typeErrorText :: "jsstring \<Rightarrow> jsstring"

text \<open>
  \<open>now\<close> is \<^verbatim>\<open>Date.now()\<close>, \<open>random36\<close> is \<^verbatim>\<open>Math.random().toString(36)\<close>, \<open>isoDate\<close> and
  \<open>isoCreatedAt\<close> are the two readings of \<^verbatim>\<open>new Date().toISOString()\<close>, \<open>apiKey\<close> is
  \<^verbatim>\<open>Deno.env.get('GEMINI_API_KEY')\<close>, \<open>fetched\<close> is what \<^verbatim>\<open>await fetch(...)\<close> gives (\<open>Inl\<close> when
  it throws), with \<open>json\<close> for \<^verbatim>\<open>await response.json()\<close>, \<open>JSON_parse\<close> is \<^verbatim>\<open>JSON.parse\<close>
  (\<open>None\<close> when it throws), and \<open>parseFloat_text\<close> is \<^verbatim>\<open>parseFloat\<close> on a string: the double
  that it reads, \<open>NaN\<close> or an infinity.
\<close>

definition type_error :: "platform \<Rightarrow> string \<Rightarrow> exn" where
  "type_error p expr = Error (typeErrorText p (ascii expr))"

text \<open>
  \<^verbatim>\<open>parseFloat(v)\<close> turns \<open>v\<close> into a string and reads it. The string of a number reads back
  as the number. The string of an array is the strings of its elements between commas, so it
  reads as its first element does (\<open>null\<close> and \<open>undefined\<close> give the empty string, which reads
  as \<open>NaN\<close>, as they do). An object is \<^verbatim>\<open>[object Object]\<close>, and \<open>true\<close>, \<open>null\<close>, \<open>undefined\<close>
  are their names: \<open>NaN\<close>.
\<close>

fun parseFloat_of :: "platform \<Rightarrow> jsval \<Rightarrow> number" where
  "parseFloat_of p (Num n) = n"
| "parseFloat_of p (Str s) = parseFloat_text p s"
| "parseFloat_of p (Arr (x # xs)) = parseFloat_of p x"
| "parseFloat_of p _ = NaN"

definition parseFloat :: "platform \<Rightarrow> jsval \<Rightarrow> exn + number" where
  "parseFloat p v =
     (if stringifiable v then Inr (parseFloat_of p v) else Inl (type_error p ''parseFloat''))"

text \<open>
  Modelled from the spec: the module \<^verbatim>\<open>kv_store.tsx\<close> that the server imports as \<open>kv\<close>.
  The Record Store is a persistent mapping from string key to JSON value with set and
  prefix-scan; the scan gives the pairs of key and value, and a persistence failure is an
  error. A value is kept as JSON writes it.
\<close>

type_synonym kv = "(jsstring \<times> jsval) list"

definition kv_set :: "platform \<Rightarrow> jsstring \<Rightarrow> jsval \<Rightarrow> kv \<Rightarrow> exn + kv" where
  "kv_set p key v store =
     (case storeError p of
        Some m \<Rightarrow> Inl (Error m)
      | None \<Rightarrow> Inr (AList.update key (jsonify v) store))"

definition kv_getByPrefix :: "platform \<Rightarrow> jsstring \<Rightarrow> kv \<Rightarrow> exn + (jsstring \<times> jsval) list" where
  "kv_getByPrefix p prefix store =
     (case storeError p of
        Some m \<Rightarrow> Inl (Error m)
      | None \<Rightarrow> Inr (filter (\<lambda>row. take (length prefix) (fst row) = prefix) store))"

section \<open>The handlers\<close>

text \<open>\<^verbatim>\<open>c.json(body, status)\<close>: the status, and the body as \<^verbatim>\<open>JSON.stringify\<close> sends it.\<close>

datatype response = Response nat jsval

definition c_json :: "jsval \<Rightarrow> nat \<Rightarrow> response" where
  "c_json body code = Response code (jsonify body)"

definition error_body :: "string \<Rightarrow> jsval" where
  "error_body m = Obj [(ascii ''error'', Str (ascii m))]"

text \<open>\<^verbatim>\<open>`${Date.now()}_${Math.random().toString(36).substr(2, 9)}`\<close>\<close>

definition transactionId :: "platform \<Rightarrow> jsstring" where
  "transactionId p = show_nat (now p) @ ascii ''_'' @ take 9 (drop 2 (random36 p))"

text \<open>\<^verbatim>\<open>s.split('T')[0]\<close>\<close>

definition split_T_0 :: "jsstring \<Rightarrow> jsstring" where
  "split_T_0 s = takeWhile (\<lambda>c. c \<noteq> 84) s"

subsection \<open>GET /transactions\<close>

definition get_transactions :: "platform \<Rightarrow> kv \<Rightarrow> response" where
  "get_transactions p store =
     (case kv_getByPrefix p (ascii ''transaction:'') store of
        Inl error \<Rightarrow> c_json (error_body ''Failed to fetch transactions'') 500
      | Inr transactions \<Rightarrow>
          let formattedTransactions =
                map (\<lambda>item.
                       spread [(ascii ''id'', Str (remove_first (ascii ''transaction:'') (fst item)))]
                         (snd item))
                  transactions
          in c_json (Obj [(ascii ''transactions'', Arr formattedTransactions)]) 200)"

subsection \<open>POST /transactions\<close>

text \<open>The block under \<^verbatim>\<open>try\<close>, from the outcome of \<^verbatim>\<open>await c.req.json()\<close>: \<open>Inl\<close> is what it
  throws.\<close>

definition post_transactions_try :: "platform \<Rightarrow> exn + jsval \<Rightarrow> kv \<Rightarrow> exn + response \<times> kv" where
  "post_transactions_try p req store =
     (case req of
        Inl e \<Rightarrow> Inl e
      | Inr body \<Rightarrow>
          if nullish body then Inl (type_error p ''body'')
          else
            let type' = get body (ascii ''type'');
                amount' = get body (ascii ''amount'');
                category' = get body (ascii ''category'');
                description' = get body (ascii ''description'');
                date' = get body (ascii ''date'')
            in if \<not> truthy type' \<or> \<not> truthy amount' \<or> \<not> truthy category'
               then Inr (c_json (error_body ''Missing required fields'') 400, store)
               else
                 (case parseFloat p amount' of
                    Inl e \<Rightarrow> Inl e
                  | Inr parsed \<Rightarrow>
                      let transaction =
                            Obj [(ascii ''type'', type'),
                                 (ascii ''amount'', Num parsed),
                                 (ascii ''category'', category'),
                                 (ascii ''description'', js_or description' (Str [])),
                                 (ascii ''date'', js_or date' (Str (split_T_0 (isoDate p)))),
                                 (ascii ''createdAt'', Str (isoCreatedAt p)),
                                 (ascii ''source'', Str (ascii ''manual''))]
                      in (case kv_set p (ascii ''transaction:'' @ transactionId p) transaction
                                 store of
                            Inl e \<Rightarrow> Inl e
                          | Inr store' \<Rightarrow>
                              Inr (c_json
                                     (Obj [(ascii ''success'', Bool True),
                                           (ascii ''transaction'',
                                              spread [(ascii ''id'', Str (transactionId p))]
                                                transaction)])
                                     200,
                                   store'))))"

definition post_transactions :: "platform \<Rightarrow> exn + jsval \<Rightarrow> kv \<Rightarrow> response \<times> kv" where
  "post_transactions p req store =
     (case post_transactions_try p req store of
        Inl error \<Rightarrow> (c_json (error_body ''Failed to add transaction'') 500, store)
      | Inr r \<Rightarrow> r)"

subsection \<open>POST /process-receipt\<close>

text \<open>\<^verbatim>\<open>result.candidates?.[0]?.content?.parts?.[0]?.text\<close>, for a \<open>result\<close> that is not
  \<open>null\<close>.\<close>

definition generatedText_of :: "jsval \<Rightarrow> jsval" where
  "generatedText_of result =
     opt_get
       (opt_at0
          (opt_get (opt_get (opt_at0 (get result (ascii ''candidates''))) (ascii ''content''))
             (ascii ''parts'')))
       (ascii ''text'')"

text \<open>The inner \<^verbatim>\<open>try\<close>: \<^verbatim>\<open>JSON.parse(generatedText.trim())\<close>. A value that is not a string has
  no \<open>trim\<close>; the \<open>TypeError\<close> of the call is caught with the errors of the parser.\<close>

definition parse_receipt :: "platform \<Rightarrow> jsval \<Rightarrow> exn + jsval" where
  "parse_receipt p generatedText =
     (case generatedText of
        Str s \<Rightarrow>
          (case JSON_parse p (trim s) of
             None \<Rightarrow> Inl (Error (ascii ''Invalid response format from Gemini API''))
           | Some receiptData \<Rightarrow> Inr receiptData)
      | _ \<Rightarrow> Inl (Error (ascii ''Invalid response format from Gemini API'')))"

text \<open>The transaction of a receipt.\<close>

definition receipt_transaction :: "platform \<Rightarrow> jsval \<Rightarrow> exn + jsval" where
  "receipt_transaction p receiptData =
     (if nullish receiptData then Inl (type_error p ''receiptData.total'')
      else
        (case parseFloat p (get receiptData (ascii ''total'')) of
           Inl e \<Rightarrow> Inl e
         | Inr parsed \<Rightarrow>
             Inr (Obj [(ascii ''type'', Str (ascii ''expense'')),
                       (ascii ''amount'', js_or (Num parsed) (Num (Finite 0))),
                       (ascii ''category'',
                          js_or (get receiptData (ascii ''category'')) (Str (ascii ''other''))),
                       (ascii ''description'',
                          js_or (js_or (get receiptData (ascii ''description''))
                                   (get receiptData (ascii ''vendor'')))
                            (Str (ascii ''Receipt expense''))),
                       (ascii ''date'', Str (split_T_0 (isoDate p))),
                       (ascii ''createdAt'', Str (isoCreatedAt p)),
                       (ascii ''source'', Str (ascii ''receipt'')),
                       (ascii ''vendor'', js_or (get receiptData (ascii ''vendor'')) (Str []))])))"

definition apiKey_missing :: "platform \<Rightarrow> bool" where
  "apiKey_missing p = (case apiKey p of None \<Rightarrow> True | Some k \<Rightarrow> k = [])"

definition post_process_receipt_try ::
  "platform \<Rightarrow> exn + jsval \<Rightarrow> kv \<Rightarrow> exn + response \<times> kv" where
  "post_process_receipt_try p req store =
     (case req of
        Inl e \<Rightarrow> Inl e
      | Inr body \<Rightarrow>
          if nullish body then Inl (type_error p ''body'')
          else if \<not> truthy (get body (ascii ''imageBase64''))
          then Inr (c_json (error_body ''No image provided'') 400, store)
          else if apiKey_missing p
          then Inr (c_json (error_body ''Gemini API key not configured'') 500, store)
          else
            (case fetched p of
               Inl e \<Rightarrow> Inl e
             | Inr response \<Rightarrow>
                 if \<not> ok response
                 then Inl (Error (ascii ''Gemini API error: '' @ show_nat (status response)))
                 else
                   (case json response of
                      Inl e \<Rightarrow> Inl e
                    | Inr result \<Rightarrow>
                        if nullish result then Inl (type_error p ''result.candidates'')
                        else
                          let generatedText = generatedText_of result
                          in if \<not> truthy generatedText
                             then Inl (Error (ascii ''No response from Gemini API''))
                             else
                               (case parse_receipt p generatedText of
                                  Inl e \<Rightarrow> Inl e
                                | Inr receiptData \<Rightarrow>
                                    (case receipt_transaction p receiptData of
                                       Inl e \<Rightarrow> Inl e
                                     | Inr transaction \<Rightarrow>
                                         (case kv_set p (ascii ''transaction:'' @ transactionId p)
                                                 transaction store of
                                            Inl e \<Rightarrow> Inl e
                                          | Inr store' \<Rightarrow>
                                              Inr (c_json
                                                     (Obj [(ascii ''success'', Bool True),
                                                           (ascii ''receiptData'', receiptData),
                                                           (ascii ''transaction'',
                                                              spread
                                                                [(ascii ''id'',
                                                                  Str (transactionId p))]
                                                                transaction)])
                                                     200,
                                                   store')))))))"

definition post_process_receipt :: "platform \<Rightarrow> exn + jsval \<Rightarrow> kv \<Rightarrow> response \<times> kv" where
  "post_process_receipt p req store =
     (case post_process_receipt_try p req store of
        Inl error \<Rightarrow>
          (c_json (Obj [(ascii ''error'',
                         Str (ascii ''Failed to process receipt: '' @ message error))])
             500,
           store)
      | Inr r \<Rightarrow> r)"

subsection \<open>A platform and requests for the examples\<close>

text \<open>
  A reader of numbers for the platform of the examples. It does what \<^verbatim>\<open>parseFloat\<close> does on a
  text: it skips the leading white space and reads the longest prefix that is a decimal
  literal (an optional sign, then \<open>Infinity\<close>, or digits with an optional fraction and an
  optional exponent), and a value beyond the doubles is an infinity. The rounding of the
  value to a double is left out: the texts of the examples are doubles.
\<close>

definition exponent_part :: "jsstring \<Rightarrow> int" where
  "exponent_part s =
     (case s of
        [] \<Rightarrow> 0
      | e # r \<Rightarrow>
          if e = 101 \<or> e = 69 then
            (case r of
               [] \<Rightarrow> 0
             | sg # r' \<Rightarrow>
                 if sg = 45 then - int (digits_value (takeWhile is_digit r'))
                 else if sg = 43 then int (digits_value (takeWhile is_digit r'))
                 else int (digits_value (takeWhile is_digit r)))
          else 0)"

definition pow10 :: "int \<Rightarrow> real" where
  "pow10 k = (if 0 \<le> k then 10 ^ nat k else 1 / 10 ^ nat (- k))"

definition unsigned_decimal :: "jsstring \<Rightarrow> real option" where
  "unsigned_decimal s =
     (let ip = takeWhile is_digit s;
          r1 = dropWhile is_digit s;
          dot = (take 1 r1 = [46]);
          fp = (if dot then takeWhile is_digit (drop 1 r1) else []);
          r2 = (if dot then dropWhile is_digit (drop 1 r1) else r1)
      in if ip = [] \<and> fp = [] then None
         else Some ((real (digits_value ip) + real (digits_value fp) / 10 ^ length fp)
                    * pow10 (exponent_part r2)))"

definition decimal_reader :: "jsstring \<Rightarrow> number" where
  "decimal_reader s =
     (let t = dropWhile is_ws s;
          neg = (take 1 t = [45]);
          u = (if take 1 t = [45] \<or> take 1 t = [43] then drop 1 t else t)
      in if take 8 u = ascii ''Infinity'' then (if neg then NegInfinity else PosInfinity)
         else (case unsigned_decimal u of
                 None \<Rightarrow> NaN
               | Some x \<Rightarrow>
                   if 2 ^ 1024 - 2 ^ 970 \<le> x then (if neg then NegInfinity else PosInfinity)
                   else Finite (if neg then - x else x)))"

text \<open>
  One request on a concrete platform. The classifier answers with a text that is JSON between
  a no-break space and a line feed, and \<open>example_parse\<close> stands for \<^verbatim>\<open>JSON.parse\<close> on the texts
  of the examples (it is applied to no other). \<open>example_platform_prose\<close> is the same platform
  when the classifier answers in prose, and \<open>example_platform_infinite\<close> when the total that
  it reads is \<open>Infinity\<close>.
\<close>

definition example_parse :: "jsstring \<Rightarrow> jsval option" where
  \<open>example_parse s =
     (if s = ascii ''{"total": "12.50", "category": "food", "vendor": "Cafe Luna"}''
      then Some (Obj [(ascii ''total'', Str (ascii ''12.50'')),
                      (ascii ''category'', Str (ascii ''food'')),
                      (ascii ''vendor'', Str (ascii ''Cafe Luna''))])
      else if s = ascii ''{"total": "Infinity", "category": "food"}''
      then Some (Obj [(ascii ''total'', Str (ascii ''Infinity'')),
                      (ascii ''category'', Str (ascii ''food''))])
      else None)\<close>

definition classifier_answer :: "jsstring \<Rightarrow> fetch_response" where
  "classifier_answer text =
     \<lparr>ok = True, status = 200,
      json = Inr (Obj [(ascii ''candidates'',
                Arr [Obj [(ascii ''content'',
                  Obj [(ascii ''parts'', Arr [Obj [(ascii ''text'', Str text)]])])]])])\<rparr>"

definition example_platform :: platform where
  \<open>example_platform =
     \<lparr>now = 1700000000123,
      random36 = ascii ''0.4fzyo82mvyr'',
      isoDate = ascii ''2023-11-14T22:13:20.123Z'',
      isoCreatedAt = ascii ''2023-11-14T22:13:20.124Z'',
      apiKey = Some (ascii ''secret''),
      fetched = Inr (classifier_answer
        (160 # ascii ''{"total": "12.50", "category": "food", "vendor": "Cafe Luna"}'' @ [10])),
      JSON_parse = example_parse,
      parseFloat_text = decimal_reader,
      storeError = None,
      typeErrorText = (\<lambda>expr. ascii ''TypeError at '' @ expr)\<rparr>\<close>

definition example_platform_prose :: platform where
  "example_platform_prose =
     example_platform
       \<lparr>fetched := Inr (classifier_answer (ascii ''Sorry, the image is not a receipt.''))\<rparr>"


definition example_store :: kv where
  "example_store =
     [(ascii ''transaction:1699999999000_abcdefghi'',
       Obj [(ascii ''type'', Str (ascii ''income'')),
            (ascii ''amount'', Num (Finite 1000)),
            (ascii ''category'', Str (ascii ''salary'')),
            (ascii ''description'', Str []),
            (ascii ''date'', Str (ascii ''2023-11-01'')),
            (ascii ''createdAt'', Str (ascii ''2023-11-14T22:13:19.000Z'')),
            (ascii ''source'', Str (ascii ''manual''))])]"

definition example_create :: jsval where
  "example_create =
     Obj [(ascii ''type'', Str (ascii ''expense'')), (ascii ''amount'', Str (ascii ''12.50'')),
          (ascii ''category'', Str (ascii ''food'')), (ascii ''description'', Str (ascii ''lunch''))]"

definition example_create_zero :: jsval where
  "example_create_zero =
     Obj [(ascii ''type'', Str (ascii ''expense'')), (ascii ''amount'', Num (Finite 0)),
          (ascii ''category'', Str (ascii ''food''))]"

definition example_create_zero_text :: jsval where
  "example_create_zero_text =
     Obj [(ascii ''type'', Str (ascii ''expense'')), (ascii ''amount'', Str (ascii ''0'')),
          (ascii ''category'', Str (ascii ''food''))]"

definition example_create_empty_amount :: jsval where
  "example_create_empty_amount =
     Obj [(ascii ''type'', Str (ascii ''expense'')), (ascii ''amount'', Str []),
          (ascii ''category'', Str (ascii ''food''))]"

definition example_create_no_category :: jsval where
  "example_create_no_category =
     Obj [(ascii ''type'', Str (ascii ''expense'')), (ascii ''amount'', Num (Finite 20))]"

definition example_receipt :: jsval where
  "example_receipt = Obj [(ascii ''imageBase64'', Str (ascii ''/9j/4AAQSkZJRg==''))]"

section \<open>Lemmas\<close>

subsection \<open>Literals\<close>

lemma ascii_eq_iff [simp]: "ascii s = ascii t \<longleftrightarrow> s = t"
  by (simp add: ascii_def inj_map_eq_map[OF inj_of_char])

lemma ascii_eq_Nil [simp]: "ascii s = [] \<longleftrightarrow> s = []" "[] = ascii s \<longleftrightarrow> s = []"
  by (auto simp: ascii_def)

lemma length_ascii [simp]: "length (ascii s) = length s"
  by (simp add: ascii_def)

lemma ascii_append: "ascii s @ ascii t = ascii (s @ t)"
  by (simp add: ascii_def)



lemma proto_inherited: "inherited (ascii ''__proto__'')"
  by (simp add: inherited_def Object_prototype_def)

subsection \<open>The two copies through their callbacks\<close>

lemma foldl_amount: "foldl (\<lambda>sum t. sum + amount t) s xs = s + sum_list (map amount xs)"
  by (induction xs arbitrary: s) simp_all

lemma calculateAnalytics_unfold:
  "calculateAnalytics lc ts =
     \<lparr>totalIncome = sum_list (map amount (filter (\<lambda>t. type t = Income) ts)),
      totalExpense = sum_list (map amount (filter (\<lambda>t. type t = Expense) ts)),
      balance = sum_list (map amount (filter (\<lambda>t. type t = Income) ts))
              - sum_list (map amount (filter (\<lambda>t. type t = Expense) ts)),
      expensesByCategory = own_entries (foldl expense_step [] (filter (\<lambda>t. type t = Expense) ts)),
      monthlyData = js_sort (\<lambda>a b. lc (month a) (month b))
                      (map snd (own_entries (foldl month_step [] ts)))\<rparr>"
  by (simp add: calculateAnalytics_def Let_def foldl_amount expense_step_def[abs_def]
      month_step_def[abs_def])

lemma analytics_handler_unfold:
  "analytics_handler lc rows =
     \<lparr>totalIncome = sum_list (map amount (filter (\<lambda>t. type t = Income) (map snd rows))),
      totalExpense = sum_list (map amount (filter (\<lambda>t. type t = Expense) (map snd rows))),
      balance = sum_list (map amount (filter (\<lambda>t. type t = Income) (map snd rows)))
              - sum_list (map amount (filter (\<lambda>t. type t = Expense) (map snd rows))),
      expensesByCategory =
        own_entries (foldl expense_step [] (filter (\<lambda>t. type t = Expense) (map snd rows))),
      monthlyData = js_sort (\<lambda>a b. lc (month a) (month b))
                      (map snd (own_entries (foldl month_step [] (map snd rows))))\<rparr>"
  by (simp add: analytics_handler_def Let_def foldl_amount expense_step_def[abs_def]
      month_step_def[abs_def])

lemma month_step_value_of: "month_step acc (value_of t) = month_step acc t"
  by (simp add: month_step_def value_of_def Let_def split: property.split)

lemma expense_step_value_of: "expense_step acc (value_of t) = expense_step acc t"
  by (simp add: expense_step_def value_of_def)

lemma foldl_month_step_value_of:
  "foldl month_step acc (map value_of ts) = foldl month_step acc ts"
  by (induction ts arbitrary: acc) (simp_all add: month_step_value_of)

lemma foldl_expense_step_value_of:
  "foldl expense_step acc (map value_of (filter (\<lambda>t. type t = ty) ts))
   = foldl expense_step acc (filter (\<lambda>t. type t = ty) ts)"
  by (induction ts arbitrary: acc) (simp_all add: expense_step_value_of)

lemma filter_type_value_of:
  "filter (\<lambda>t. type t = ty) (map value_of ts) = map value_of (filter (\<lambda>t. type t = ty) ts)"
  by (induction ts) (simp_all add: value_of_def)

lemma amount_value_of: "map amount (map value_of ts) = map amount ts"
  by (induction ts) (simp_all add: value_of_def)

lemma snd_rows_of: "map snd (rows_of ts) = map value_of ts"
  by (simp add: rows_of_def o_def)

subsection \<open>Enumeration and sorting\<close>

lemma mset_own_entries: "mset (own_entries ps) = mset ps"
  by (simp add: own_entries_def)

lemma set_own_entries: "set (own_entries ps) = set ps"
  using mset_own_entries[of ps] by (metis set_mset_mset)

lemma distinct_fst_own_entries: "distinct (map fst (own_entries ps)) = distinct (map fst ps)"
proof -
  have "mset (map fst (own_entries ps)) = mset (map fst ps)"
    by (simp add: mset_own_entries)
  then show ?thesis by (rule mset_eq_imp_distinct_iff)
qed

lemma mset_insert_by: "mset (insert_by cmp x xs) = add_mset x (mset xs)"
  by (induction xs) simp_all

lemma mset_js_sort: "mset (js_sort cmp xs) = mset xs"
  by (induction xs) (simp_all add: js_sort_def mset_insert_by)

lemma set_js_sort: "set (js_sort cmp xs) = set xs"
  using mset_js_sort[of cmp xs] by (metis set_mset_mset)




subsection \<open>The months\<close>

lemma read_not_inherited:
  "\<not> inherited k \<Longrightarrow> read acc k = (case map_of acc k of Some v \<Rightarrow> Own v | None \<Rightarrow> Absent)"
  by (simp add: read_def)










subsection \<open>The categories\<close>

lemma sum_update_number:
  assumes "list_all (\<lambda>p. \<exists>x. snd p = Number x) acc"
  shows "sum_list (map (\<lambda>p. case snd p of Number x \<Rightarrow> x | Text k as \<Rightarrow> 0)
           (AList.update k (or_zero_plus (case map_of acc k of Some v \<Rightarrow> Own v | None \<Rightarrow> Absent) a) acc))
         = sum_list (map (\<lambda>p. case snd p of Number x \<Rightarrow> x | Text k as \<Rightarrow> 0) acc) + a
       \<and> list_all (\<lambda>p. \<exists>x. snd p = Number x)
           (AList.update k (or_zero_plus (case map_of acc k of Some v \<Rightarrow> Own v | None \<Rightarrow> Absent) a) acc)"
  using assms by (induction acc) auto

lemma expense_step_number:
  assumes "\<not> inherited (category t)"
    and "list_all (\<lambda>p. \<exists>x. snd p = Number x) acc"
  shows "sum_list (map (\<lambda>p. case snd p of Number x \<Rightarrow> x | Text k as \<Rightarrow> 0) (expense_step acc t))
         = sum_list (map (\<lambda>p. case snd p of Number x \<Rightarrow> x | Text k as \<Rightarrow> 0) acc) + amount t"
    and "list_all (\<lambda>p. \<exists>x. snd p = Number x) (expense_step acc t)"
proof -
  have "category t \<noteq> ascii ''__proto__''"
    using assms(1) proto_inherited by auto
  then have "expense_step acc t =
     AList.update (category t)
       (or_zero_plus (case map_of acc (category t) of Some v \<Rightarrow> Own v | None \<Rightarrow> Absent) (amount t)) acc"
    using assms(1) by (simp add: expense_step_def assign_def read_not_inherited)
  with sum_update_number[OF assms(2), of "category t" "amount t"]
  show "sum_list (map (\<lambda>p. case snd p of Number x \<Rightarrow> x | Text k as \<Rightarrow> 0) (expense_step acc t))
         = sum_list (map (\<lambda>p. case snd p of Number x \<Rightarrow> x | Text k as \<Rightarrow> 0) acc) + amount t"
    and "list_all (\<lambda>p. \<exists>x. snd p = Number x) (expense_step acc t)"
    by simp_all
qed

lemma expense_fold_number:
  assumes "\<forall>t \<in> set ts. \<not> inherited (category t)"
    and "list_all (\<lambda>p. \<exists>x. snd p = Number x) acc"
  shows "sum_list (map (\<lambda>p. case snd p of Number x \<Rightarrow> x | Text k as \<Rightarrow> 0) (foldl expense_step acc ts))
         = sum_list (map (\<lambda>p. case snd p of Number x \<Rightarrow> x | Text k as \<Rightarrow> 0) acc)
           + sum_list (map amount ts)
       \<and> list_all (\<lambda>p. \<exists>x. snd p = Number x) (foldl expense_step acc ts)"
  using assms
proof (induction ts arbitrary: acc)
  case Nil
  then show ?case by simp
next
  case (Cons t ts)
  from Cons.prems have n: "\<not> inherited (category t)" and r: "\<forall>t \<in> set ts. \<not> inherited (category t)"
    by simp_all
  note s = expense_step_number[OF n Cons.prems(2)]
  from Cons.IH[OF r s(2)] s(1) show ?case by simp
qed

lemma sum_own_entries:
  fixes f :: "jsstring \<times> 'v \<Rightarrow> real"
  shows "sum_list (map f (own_entries ps)) = sum_list (map f ps)"
proof -
  have "mset (map f (own_entries ps)) = mset (map f ps)"
    by (simp add: mset_own_entries)
  then have "sum_mset (mset (map f (own_entries ps))) = sum_mset (mset (map f ps))"
    by (rule arg_cong)
  then show ?thesis by (simp only: sum_mset_sum_list)
qed

text \<open>
  When no expense has a category that \<^verbatim>\<open>Object.prototype\<close> has a property for, every value of
  the grouping is a number, and the numbers add up to the sum of the amounts of the expenses.
\<close>

lemma expenses_sum_of_own_categories:
  fixes ts :: "'a tx_value_scheme list"
  assumes "\<forall>t \<in> set ts. type t = Expense \<longrightarrow> \<not> inherited (category t)"
  shows "sum_list (map (\<lambda>p. case snd p of Number x \<Rightarrow> x | Text k as \<Rightarrow> 0)
            (own_entries (foldl expense_step [] (filter (\<lambda>t. type t = Expense) ts))))
         = sum_list (map amount (filter (\<lambda>t. type t = Expense) ts))"
    and "\<forall>p \<in> set (own_entries (foldl expense_step [] (filter (\<lambda>t. type t = Expense) ts))).
           \<exists>x. snd p = Number x"
proof -
  have a: "\<forall>t \<in> set (filter (\<lambda>t. type t = Expense) ts). \<not> inherited (category t)"
    using assms by simp
  have b: "list_all (\<lambda>p. \<exists>x. snd p = Number x) ([] :: (jsstring \<times> catval) list)"
    by simp
  note e = expense_fold_number[OF a b]
  from e show "sum_list (map (\<lambda>p. case snd p of Number x \<Rightarrow> x | Text k as \<Rightarrow> 0)
            (own_entries (foldl expense_step [] (filter (\<lambda>t. type t = Expense) ts))))
         = sum_list (map amount (filter (\<lambda>t. type t = Expense) ts))"
    by (simp add: sum_own_entries)
  from e show "\<forall>p \<in> set (own_entries (foldl expense_step [] (filter (\<lambda>t. type t = Expense) ts))).
           \<exists>x. snd p = Number x"
    by (simp add: set_own_entries list_all_iff)
qed

subsection \<open>Evaluation of the examples\<close>

lemma not_index_ascii:
  "\<not> array_index (ascii ''food'')" "\<not> array_index (ascii ''constructor'')"
  "\<not> array_index (ascii ''a'')" "\<not> array_index (ascii ''B'')"
  "\<not> array_index (ascii ''2024-01'')" "\<not> array_index (ascii ''2024-02'')"
  by (simp_all add: array_index_def ascii_def is_digit_def)

lemmas expense_eval =
  calculateAnalytics_unfold analytics_handler_unfold example_tx_def expense_step_def read_def
  inherited_def Object_prototype_def assign_def own_entries_def not_index_ascii



lemmas decimal_defs =
  decimal_reader_def unsigned_decimal_def exponent_part_def pow10_def digits_value_def
  is_digit_def is_ws_def Let_def

subsection \<open>Values, JSON and the store\<close>

lemma not_index_names:
  "\<not> array_index (ascii ''id'')" "\<not> array_index (ascii ''type'')"
  "\<not> array_index (ascii ''amount'')" "\<not> array_index (ascii ''category'')"
  "\<not> array_index (ascii ''description'')" "\<not> array_index (ascii ''date'')"
  "\<not> array_index (ascii ''createdAt'')" "\<not> array_index (ascii ''source'')"
  "\<not> array_index (ascii ''vendor'')"
  by (simp_all add: array_index_def ascii_def is_digit_def)

lemma own_entries_names: "list_all (\<lambda>p. \<not> array_index (fst p)) ps \<Longrightarrow> own_entries ps = ps"
  by (simp add: own_entries_def list_all_iff filter_id_conv filter_empty_conv)

lemma truthy_get_not_nullish: "truthy (get v name) \<Longrightarrow> \<not> nullish v"
  by (cases v) (simp_all add: nullish_def)

lemma truthy_not_Undefined: "truthy v \<Longrightarrow> v \<noteq> Undefined"
  by (cases v) simp_all

lemma jsonify_error_body: "jsonify (error_body m) = error_body m"
  by (simp add: error_body_def)

lemma post_transactions_falsy:
  assumes "\<not> nullish body"
    and "\<not> truthy (get body (ascii ''type'')) \<or> \<not> truthy (get body (ascii ''amount''))
         \<or> \<not> truthy (get body (ascii ''category''))"
  shows "post_transactions p (Inr body) store =
           (Response 400 (error_body ''Missing required fields''), store)"
  using assms
  by (simp add: post_transactions_def post_transactions_try_def Let_def c_json_def
      jsonify_error_body)

lemma update_mem: "(k, v) \<in> set (AList.update k v al)"
  by (induction al) auto

lemma remove_first_prefix: "remove_first p (p @ s) = s"
proof (cases "p @ s")
  case Nil
  then show ?thesis by simp
next
  case (Cons c cs)
  have "remove_first p (c # cs) =
          (if take (length p) (c # cs) = p then drop (length p) (c # cs)
           else c # remove_first p cs)"
    by simp
  also have "\<dots> = s"
    unfolding Cons[symmetric] by simp
  finally show ?thesis
    by (simp only: Cons)
qed

lemma json_value_get: "json_value v \<Longrightarrow> truthy (get v name) \<Longrightarrow> json_value (get v name)"
proof (cases v)
  case (Obj fs)
  assume j: "json_value v" and t: "truthy (get v name)"
  from t Obj obtain x where x: "map_of fs name = Some x"
    by (cases "map_of fs name") simp_all
  then have "(name, x) \<in> set fs" by (rule map_of_SomeD)
  with j Obj have "json_value x" by (auto simp: list_all_iff)
  with x Obj show ?thesis by simp
qed simp_all

lemma json_value_not_Undefined: "json_value v \<Longrightarrow> v \<noteq> Undefined"
  by (cases v) simp_all

lemma jsonify_json_value: "json_value v \<Longrightarrow> jsonify v = v"
proof (induction v)
  case (Num n)
  then show ?case by (cases n) simp_all
next
  case (Arr xs)
  have "\<forall>x \<in> set xs. (if x = Undefined then Null else jsonify x) = x"
  proof
    fix x assume x: "x \<in> set xs"
    with Arr.prems have j: "json_value x" by (simp add: list_all_iff)
    then have "x \<noteq> Undefined" by (rule json_value_not_Undefined)
    moreover from x j have "jsonify x = x" by (rule Arr.IH)
    ultimately show "(if x = Undefined then Null else jsonify x) = x" by simp
  qed
  then have "map (\<lambda>x. if x = Undefined then Null else jsonify x) xs = xs"
    by (simp add: map_idI)
  then show ?case by simp
next
  case (Obj fs)
  have u: "\<forall>f \<in> set fs. snd f \<noteq> Undefined"
  proof
    fix f assume "f \<in> set fs"
    with Obj.prems have "json_value (snd f)" by (simp add: list_all_iff)
    then show "snd f \<noteq> Undefined" by (rule json_value_not_Undefined)
  qed
  then have 1: "filter (\<lambda>f. snd f \<noteq> Undefined) fs = fs"
    by (simp add: filter_id_conv)
  have "\<forall>f \<in> set fs. (fst f, jsonify (snd f)) = f"
  proof
    fix f assume f: "f \<in> set fs"
    then have j: "json_value (snd f)"
      using Obj.prems by (simp add: list_all_iff)
    have "snd f \<in> Basic_BNFs.snds f"
      by (cases f) simp
    with f have "jsonify (snd f) = snd f"
      using j by (rule Obj.IH)
    then show "(fst f, jsonify (snd f)) = f" by simp
  qed
  then have "map (\<lambda>f. (fst f, jsonify (snd f))) fs = fs"
    by (simp add: map_idI)
  then show ?case by (simp add: 1)
qed simp_all

lemma jsonify_truthy_get:
  "json_value body \<Longrightarrow> truthy (get body name) \<Longrightarrow> jsonify (get body name) = get body name"
  by (simp add: json_value_get jsonify_json_value)

lemma jsonify_js_or_get:
  "json_value body \<Longrightarrow> jsonify (js_or (get body name) (Str s)) = js_or (get body name) (Str s)"
  by (simp add: js_or_def jsonify_truthy_get)

lemma js_or_not_Undefined: "js_or v (Str s) \<noteq> Undefined"
  by (auto simp: js_or_def dest: truthy_not_Undefined)

lemma show_nat_small: "n < 10 \<Longrightarrow> show_nat n = [48 + n]"
  by (simp add: show_nat.simps)

lemma show_nat_large: "10 \<le> n \<Longrightarrow> show_nat n = show_nat (n div 10) @ [48 + n mod 10]"
  by (subst show_nat.simps) simp

lemma created_row:
  assumes j: "json_value body"
    and t: "truthy (get body (ascii ''type''))" "truthy (get body (ascii ''amount''))"
      "truthy (get body (ascii ''category''))"
    and a: "parseFloat p (get body (ascii ''amount'')) = Inr (Finite x)"
    and s: "storeError p = None"
  shows "post_transactions p (Inr body) store =
     (Response 200
        (Obj [(ascii ''success'', Bool True),
              (ascii ''transaction'',
                 Obj [(ascii ''id'', Str (transactionId p)),
                      (ascii ''type'', get body (ascii ''type'')),
                      (ascii ''amount'', Num (Finite x)),
                      (ascii ''category'', get body (ascii ''category'')),
                      (ascii ''description'', js_or (get body (ascii ''description'')) (Str [])),
                      (ascii ''date'',
                         js_or (get body (ascii ''date'')) (Str (split_T_0 (isoDate p)))),
                      (ascii ''createdAt'', Str (isoCreatedAt p)),
                      (ascii ''source'', Str (ascii ''manual''))])]),
      AList.update (ascii ''transaction:'' @ transactionId p)
        (Obj [(ascii ''type'', get body (ascii ''type'')),
              (ascii ''amount'', Num (Finite x)),
              (ascii ''category'', get body (ascii ''category'')),
              (ascii ''description'', js_or (get body (ascii ''description'')) (Str [])),
              (ascii ''date'', js_or (get body (ascii ''date'')) (Str (split_T_0 (isoDate p)))),
              (ascii ''createdAt'', Str (isoCreatedAt p)),
              (ascii ''source'', Str (ascii ''manual''))])
        store)"
proof -
  have n: "\<not> nullish body" using t(1) by (rule truthy_get_not_nullish)
  have u: "get body (ascii ''type'') \<noteq> Undefined" "get body (ascii ''category'') \<noteq> Undefined"
    using t by (auto dest: truthy_not_Undefined)
  show ?thesis
    using n t a s u
    by (simp add: post_transactions_def post_transactions_try_def Let_def kv_set_def spread_def
        c_json_def own_entries_names not_index_names
        jsonify_truthy_get[OF j] jsonify_js_or_get[OF j] js_or_not_Undefined)
qed

lemma listed_row:
  assumes s: "storeError p = None" and r: "(ascii ''transaction:'' @ i, v) \<in> set store"
  shows "\<exists>rs. get_transactions p store =
               Response 200 (Obj [(ascii ''transactions'', Arr rs)])
             \<and> jsonify (spread [(ascii ''id'', Str i)] v) \<in> set rs"
proof -
  let ?f = "\<lambda>item. spread [(ascii ''id'', Str (remove_first (ascii ''transaction:'') (fst item)))]
              (snd item)"
  let ?g = "\<lambda>x. if x = Undefined then Null else jsonify x"
  let ?rows = "filter (\<lambda>row. take (length (ascii ''transaction:'')) (fst row) = ascii ''transaction:'')
                 store"
  have "(ascii ''transaction:'' @ i, v) \<in> set ?rows"
    using r by simp
  then have 1: "?g (?f (ascii ''transaction:'' @ i, v)) \<in> set (map ?g (map ?f ?rows))"
    unfolding set_map by (intro imageI)
  have 2: "?g (?f (ascii ''transaction:'' @ i, v)) = jsonify (spread [(ascii ''id'', Str i)] v)"
    by (simp only: fst_conv snd_conv remove_first_prefix spread_def jsval.distinct if_False)
  have 3: "jsonify (spread [(ascii ''id'', Str i)] v) \<in> set (map ?g (map ?f ?rows))"
    using 1 unfolding 2 .
  have "get_transactions p store =
      Response 200 (Obj [(ascii ''transactions'', Arr (map ?g (map ?f ?rows)))])"
    using s by (simp add: get_transactions_def kv_getByPrefix_def c_json_def)
  with 3 show ?thesis by blast
qed

lemma example_amount:
  "parseFloat example_platform (get example_create (ascii ''amount'')) = Inr (Finite (25 / 2))"
  by (simp add: parseFloat_def example_create_def example_platform_def decimal_defs ascii_def)

lemma example_id: "transactionId example_platform = ascii ''1700000000123_4fzyo82mv''"
  by (simp add: transactionId_def example_platform_def show_nat_small show_nat_large ascii_def)

subsection \<open>The receipt\<close>

lemma generatedText_not_nullish: "truthy (generatedText_of result) \<Longrightarrow> \<not> nullish result"
  by (cases result) (simp_all add: generatedText_of_def opt_get_def opt_at0_def nullish_def)

lemma receipt_reaches_parse:
  assumes "truthy (get body (ascii ''imageBase64''))"
    and "\<not> apiKey_missing p"
    and "fetched p = Inr response" and "ok response" and "json response = Inr result"
    and "generatedText_of result = Str s" and "s \<noteq> []"
  shows "post_process_receipt_try p (Inr body) store =
     (case parse_receipt p (Str s) of
        Inl e \<Rightarrow> Inl e
      | Inr receiptData \<Rightarrow>
          (case receipt_transaction p receiptData of
             Inl e \<Rightarrow> Inl e
           | Inr transaction \<Rightarrow>
               (case kv_set p (ascii ''transaction:'' @ transactionId p) transaction store of
                  Inl e \<Rightarrow> Inl e
                | Inr store' \<Rightarrow>
                    Inr (c_json
                           (Obj [(ascii ''success'', Bool True),
                                 (ascii ''receiptData'', receiptData),
                                 (ascii ''transaction'',
                                    spread [(ascii ''id'', Str (transactionId p))] transaction)])
                           200,
                         store'))))"
proof -
  have b: "\<not> nullish body"
    using assms(1) by (rule truthy_get_not_nullish)
  have r: "\<not> nullish result"
    using assms(6,7) by (intro generatedText_not_nullish) simp
  show ?thesis
    using assms b r by (simp add: post_process_receipt_try_def Let_def)
qed

lemma example_generated_text:
  "generatedText_of (Obj [(ascii ''candidates'',
       Arr [Obj [(ascii ''content'',
         Obj [(ascii ''parts'', Arr [Obj [(ascii ''text'', Str text)]])])]])]) = Str text"
  by (simp add: generatedText_of_def opt_get_def opt_at0_def nullish_def)

lemma trim_prose:
  "trim (ascii ''Sorry, the image is not a receipt.'') = ascii ''Sorry, the image is not a receipt.''"
  by (simp add: trim_def is_ws_def ascii_def)










section \<open>The claims\<close>

text \<open>
  C1. The analytics of the server and those of the client are the same function: on the rows
  that the store keeps for a list of transactions, the handler of GET /analytics returns what
  \<open>calculateAnalytics\<close> returns on the list, in all five fields, whatever the collation.
\<close>

theorem server_client_analytics_equal: "analytics_handler lc (rows_of ts) = calculateAnalytics lc ts"
  by (simp only: analytics_handler_unfold calculateAnalytics_unfold snd_rows_of
      filter_type_value_of amount_value_of foldl_month_step_value_of foldl_expense_step_value_of)

text \<open>
  C2. The values of \<open>expensesByCategory\<close> do not always add up to \<open>totalExpense\<close>. With an
  expense of 7 under \<open>food\<close> and one of 5 under \<open>__proto__\<close>, the grouping holds \<open>food: 7\<close> only
  and \<open>totalExpense\<close> is 12: the assignment under \<open>__proto__\<close> creates no property. With an
  expense of 5 under \<open>constructor\<close>, the value of the category is not a number: it is the text
  of the inherited function followed by \<open>5\<close>. Both copies do the same.
\<close>

theorem expensesByCategory_inherited_name:
  "expensesByCategory (calculateAnalytics lc
      [example_tx Expense 7 ''food'' ''2024-01-10'', example_tx Expense 5 ''__proto__'' ''2024-01-11''])
     = [(ascii ''food'', Number 7)]
   \<and> totalExpense (calculateAnalytics lc
      [example_tx Expense 7 ''food'' ''2024-01-10'', example_tx Expense 5 ''__proto__'' ''2024-01-11''])
     = 12
   \<and> expensesByCategory (calculateAnalytics lc [example_tx Expense 5 ''constructor'' ''2024-01-11''])
     = [(ascii ''constructor'', Text (ascii ''constructor'') [5])]
   \<and> expensesByCategory (analytics_handler lc (rows_of
      [example_tx Expense 7 ''food'' ''2024-01-10'', example_tx Expense 5 ''__proto__'' ''2024-01-11'']))
     = [(ascii ''food'', Number 7)]
   \<and> totalExpense (analytics_handler lc (rows_of
      [example_tx Expense 7 ''food'' ''2024-01-10'', example_tx Expense 5 ''__proto__'' ''2024-01-11'']))
     = 12"
  by (simp add: expense_eval rows_of_def value_of_def)




text \<open>
  C4. The balance is the total income minus the total expense, and the totals are the sums of
  the amounts of the transactions of the type, in both copies.
\<close>

theorem balance_income_minus_expense:
  "balance (calculateAnalytics lc ts)
     = totalIncome (calculateAnalytics lc ts) - totalExpense (calculateAnalytics lc ts)
   \<and> totalIncome (calculateAnalytics lc ts) = sum_list (map amount (filter (\<lambda>t. type t = Income) ts))
   \<and> totalExpense (calculateAnalytics lc ts) = sum_list (map amount (filter (\<lambda>t. type t = Expense) ts))
   \<and> balance (analytics_handler lc rows)
     = totalIncome (analytics_handler lc rows) - totalExpense (analytics_handler lc rows)
   \<and> totalIncome (analytics_handler lc rows)
     = sum_list (map amount (filter (\<lambda>t. type t = Income) (map snd rows)))
   \<and> totalExpense (analytics_handler lc rows)
     = sum_list (map amount (filter (\<lambda>t. type t = Expense) (map snd rows)))"
  by (simp add: calculateAnalytics_unfold analytics_handler_unfold)

text \<open>
  C5. When the call of the classifier succeeds and the text that it returns is not JSON (the
  parser throws on the trimmed text), the answer to the receipt is 500 with the message
  \<^verbatim>\<open>Failed to process receipt: Invalid response format from Gemini API\<close>, and the store is as
  it was.
\<close>

theorem receipt_text_not_json:
  assumes "truthy (get body (ascii ''imageBase64''))"
    and "\<not> apiKey_missing p"
    and "fetched p = Inr response" and "ok response" and "json response = Inr result"
    and "generatedText_of result = Str s" and "s \<noteq> []"
    and "JSON_parse p (trim s) = None"
  shows "post_process_receipt p (Inr body) store =
     (Response 500
        (error_body ''Failed to process receipt: Invalid response format from Gemini API''),
      store)"
  by (simp add: post_process_receipt_def receipt_reaches_parse[OF assms(1-7)] parse_receipt_def
      assms(8) c_json_def error_body_def ascii_append)

text \<open>C5 when the classifier answers in prose.\<close>

theorem receipt_text_not_json_witness:
  "truthy (get example_receipt (ascii ''imageBase64''))
   \<and> \<not> apiKey_missing example_platform_prose
   \<and> fetched example_platform_prose
       = Inr (classifier_answer (ascii ''Sorry, the image is not a receipt.''))
   \<and> JSON_parse example_platform_prose (trim (ascii ''Sorry, the image is not a receipt.'')) = None
   \<and> post_process_receipt example_platform_prose (Inr example_receipt) example_store =
       (Response 500
          (error_body ''Failed to process receipt: Invalid response format from Gemini API''),
        example_store)"
proof -
  let ?text = "ascii ''Sorry, the image is not a receipt.''"
  have i: "truthy (get example_receipt (ascii ''imageBase64''))"
    by (simp add: example_receipt_def)
  have k: "\<not> apiKey_missing example_platform_prose"
    by (simp add: apiKey_missing_def example_platform_prose_def example_platform_def)
  have f: "fetched example_platform_prose = Inr (classifier_answer ?text)"
    by (simp add: example_platform_prose_def)
  have o: "ok (classifier_answer ?text)"
    and r: "json (classifier_answer ?text) =
      Inr (Obj [(ascii ''candidates'',
         Arr [Obj [(ascii ''content'',
           Obj [(ascii ''parts'', Arr [Obj [(ascii ''text'', Str ?text)]])])]])])"
    by (simp_all add: classifier_answer_def)
  have n: "?text \<noteq> []" by simp
  have u: "JSON_parse example_platform_prose (trim ?text) = None"
    unfolding trim_prose
    by (simp add: example_platform_prose_def example_platform_def example_parse_def)
  from i k f u receipt_text_not_json[OF i k f o r example_generated_text n u, of example_store]
  show ?thesis
    by (intro conjI)
qed

text \<open>
  C6. A create request whose body is not \<open>null\<close> and in which the type, the amount or the
  category is absent is answered 400 with \<^verbatim>\<open>Missing required fields\<close>, and the store is as it
  was.
\<close>

theorem create_absent_field:
  assumes "\<not> nullish body"
    and "get body (ascii ''type'') = Undefined \<or> get body (ascii ''amount'') = Undefined
         \<or> get body (ascii ''category'') = Undefined"
  shows "post_transactions p (Inr body) store =
           (Response 400 (error_body ''Missing required fields''), store)"
  using assms(1)
proof (rule post_transactions_falsy)
  from assms(2)
  show "\<not> truthy (get body (ascii ''type'')) \<or> \<not> truthy (get body (ascii ''amount''))
        \<or> \<not> truthy (get body (ascii ''category''))"
    by auto
qed

text \<open>C6 on a request without a category.\<close>

theorem create_absent_field_witness:
  "\<not> nullish example_create_no_category
   \<and> get example_create_no_category (ascii ''category'') = Undefined
   \<and> post_transactions example_platform (Inr example_create_no_category) example_store =
       (Response 400 (error_body ''Missing required fields''), example_store)"
proof -
  have n: "\<not> nullish example_create_no_category"
    by (simp add: example_create_no_category_def nullish_def)
  have u: "get example_create_no_category (ascii ''category'') = Undefined"
    by (simp add: example_create_no_category_def)
  then have d: "get example_create_no_category (ascii ''type'') = Undefined
      \<or> get example_create_no_category (ascii ''amount'') = Undefined
      \<or> get example_create_no_category (ascii ''category'') = Undefined"
    by simp
  from n u create_absent_field[OF n d, of example_platform example_store] show ?thesis
    by (intro conjI)
qed

text \<open>
  C6 does not hold of every request in which the fields are absent. The body \<open>null\<close> has no
  field at all: reading its fields throws, and the answer is 500. So is the answer to a request
  whose body is not JSON, where the reading of the body throws.
\<close>

theorem create_null_body:
  "get Null (ascii ''type'') = Undefined
   \<and> post_transactions example_platform (Inr Null) example_store =
       (Response 500 (error_body ''Failed to add transaction''), example_store)
   \<and> post_transactions example_platform (Inl (Error (ascii ''Unexpected end of JSON input'')))
        example_store =
       (Response 500 (error_body ''Failed to add transaction''), example_store)"
  by (simp add: post_transactions_def post_transactions_try_def nullish_def c_json_def
      jsonify_error_body)




text \<open>
  C8. When a create request has a type, an amount and a category that are truthy, the amount
  reads as a finite number and the store works, the list that follows the creation holds the
  record that the creation returned: its id is the new id, its type, category and description
  are those of the request (the description is the empty string when the request has none),
  its amount is the number read, its date is that of the request or the day, its
  \<open>createdAt\<close> is set and its source is \<open>manual\<close>.
\<close>

theorem create_then_list:
  assumes j: "json_value body"
    and t: "truthy (get body (ascii ''type''))" "truthy (get body (ascii ''amount''))"
      "truthy (get body (ascii ''category''))"
    and a: "parseFloat p (get body (ascii ''amount'')) = Inr (Finite x)"
    and s: "storeError p = None" "storeError p' = None"
  shows "\<exists>r rs.
           fst (post_transactions p (Inr body) store) =
             Response 200 (Obj [(ascii ''success'', Bool True), (ascii ''transaction'', r)])
         \<and> get_transactions p' (snd (post_transactions p (Inr body) store)) =
             Response 200 (Obj [(ascii ''transactions'', Arr rs)])
         \<and> r \<in> set rs
         \<and> get r (ascii ''id'') = Str (transactionId p)
         \<and> get r (ascii ''type'') = get body (ascii ''type'')
         \<and> get r (ascii ''amount'') = Num (Finite x)
         \<and> get r (ascii ''category'') = get body (ascii ''category'')
         \<and> get r (ascii ''description'') =
             (if truthy (get body (ascii ''description'')) then get body (ascii ''description'')
              else Str [])
         \<and> get r (ascii ''date'') =
             (if truthy (get body (ascii ''date'')) then get body (ascii ''date'')
              else Str (split_T_0 (isoDate p)))
         \<and> get r (ascii ''createdAt'') = Str (isoCreatedAt p)
         \<and> get r (ascii ''source'') = Str (ascii ''manual'')"
proof -
  let ?v = "Obj [(ascii ''type'', get body (ascii ''type'')),
              (ascii ''amount'', Num (Finite x)),
              (ascii ''category'', get body (ascii ''category'')),
              (ascii ''description'', js_or (get body (ascii ''description'')) (Str [])),
              (ascii ''date'', js_or (get body (ascii ''date'')) (Str (split_T_0 (isoDate p)))),
              (ascii ''createdAt'', Str (isoCreatedAt p)),
              (ascii ''source'', Str (ascii ''manual''))]"
  let ?r = "Obj [(ascii ''id'', Str (transactionId p)),
              (ascii ''type'', get body (ascii ''type'')),
              (ascii ''amount'', Num (Finite x)),
              (ascii ''category'', get body (ascii ''category'')),
              (ascii ''description'', js_or (get body (ascii ''description'')) (Str [])),
              (ascii ''date'', js_or (get body (ascii ''date'')) (Str (split_T_0 (isoDate p)))),
              (ascii ''createdAt'', Str (isoCreatedAt p)),
              (ascii ''source'', Str (ascii ''manual''))]"
  note c = created_row[OF j t a s(1), of store]
  have u: "get body (ascii ''type'') \<noteq> Undefined" "get body (ascii ''category'') \<noteq> Undefined"
    using t by (auto dest: truthy_not_Undefined)
  have e: "jsonify (spread [(ascii ''id'', Str (transactionId p))] ?v) = ?r"
    using t u
    by (simp add: spread_def own_entries_names not_index_names
        jsonify_truthy_get[OF j] jsonify_js_or_get[OF j] js_or_not_Undefined)
  have "(ascii ''transaction:'' @ transactionId p, ?v)
          \<in> set (snd (post_transactions p (Inr body) store))"
    by (simp only: c snd_conv update_mem)
  from listed_row[OF s(2) this] obtain rs where
    rs: "get_transactions p' (snd (post_transactions p (Inr body) store)) =
           Response 200 (Obj [(ascii ''transactions'', Arr rs)])" "?r \<in> set rs"
    unfolding e by blast
  have f: "fst (post_transactions p (Inr body) store) =
             Response 200 (Obj [(ascii ''success'', Bool True), (ascii ''transaction'', ?r)])"
    by (simp add: c)
  have g: "get ?r (ascii ''id'') = Str (transactionId p)"
    "get ?r (ascii ''type'') = get body (ascii ''type'')"
    "get ?r (ascii ''amount'') = Num (Finite x)"
    "get ?r (ascii ''category'') = get body (ascii ''category'')"
    "get ?r (ascii ''description'') =
       (if truthy (get body (ascii ''description'')) then get body (ascii ''description'')
        else Str [])"
    "get ?r (ascii ''date'') =
       (if truthy (get body (ascii ''date'')) then get body (ascii ''date'')
        else Str (split_T_0 (isoDate p)))"
    "get ?r (ascii ''createdAt'') = Str (isoCreatedAt p)"
    "get ?r (ascii ''source'') = Str (ascii ''manual'')"
    by (simp_all add: js_or_def)
  from f rs g show ?thesis by blast
qed

text \<open>C8 on a request of amount \<^verbatim>\<open>"12.50"\<close> and a store of one transaction.\<close>

theorem create_then_list_witness:
  "json_value example_create
   \<and> truthy (get example_create (ascii ''type''))
   \<and> truthy (get example_create (ascii ''amount''))
   \<and> truthy (get example_create (ascii ''category''))
   \<and> parseFloat example_platform (get example_create (ascii ''amount'')) = Inr (Finite (25 / 2))
   \<and> storeError example_platform = None
   \<and> (\<exists>r rs.
           fst (post_transactions example_platform (Inr example_create) example_store) =
             Response 200 (Obj [(ascii ''success'', Bool True), (ascii ''transaction'', r)])
         \<and> get_transactions example_platform
               (snd (post_transactions example_platform (Inr example_create) example_store)) =
             Response 200 (Obj [(ascii ''transactions'', Arr rs)])
         \<and> r \<in> set rs
         \<and> get r (ascii ''id'') = Str (transactionId example_platform)
         \<and> get r (ascii ''type'') = get example_create (ascii ''type'')
         \<and> get r (ascii ''amount'') = Num (Finite (25 / 2))
         \<and> get r (ascii ''category'') = get example_create (ascii ''category'')
         \<and> get r (ascii ''description'') =
             (if truthy (get example_create (ascii ''description''))
              then get example_create (ascii ''description'') else Str [])
         \<and> get r (ascii ''date'') =
             (if truthy (get example_create (ascii ''date''))
              then get example_create (ascii ''date'')
              else Str (split_T_0 (isoDate example_platform)))
         \<and> get r (ascii ''createdAt'') = Str (isoCreatedAt example_platform)
         \<and> get r (ascii ''source'') = Str (ascii ''manual''))"
proof -
  have j: "json_value example_create"
    by (simp add: example_create_def)
  have t: "truthy (get example_create (ascii ''type''))"
    "truthy (get example_create (ascii ''amount''))"
    "truthy (get example_create (ascii ''category''))"
    by (simp_all add: example_create_def)
  have s: "storeError example_platform = None"
    by (simp add: example_platform_def)
  note a = example_amount
  from j t a s create_then_list[OF j t a s s, of example_store] show ?thesis
    by (intro conjI)
qed

text \<open>
  C8 does not hold of every request that has the three fields. The request of amount 0, with
  its type and its category, on the empty store: it is answered 400, and the list that follows
  is empty.
\<close>

theorem create_zero_amount_not_listed:
  "post_transactions example_platform (Inr example_create_zero) [] =
     (Response 400 (error_body ''Missing required fields''), [])
   \<and> get_transactions example_platform
        (snd (post_transactions example_platform (Inr example_create_zero) [])) =
     Response 200 (Obj [(ascii ''transactions'', Arr [])])"
  by (simp add: post_transactions_def post_transactions_try_def example_create_zero_def nullish_def
      get_transactions_def kv_getByPrefix_def example_platform_def c_json_def jsonify_error_body)

text \<open>
  C9. On no transaction at all, the totals and the balance are 0, and the grouping and the
  months are empty, in both copies.
\<close>

theorem analytics_of_nothing:
  "calculateAnalytics lc [] =
     \<lparr>totalIncome = 0, totalExpense = 0, balance = 0, expensesByCategory = [], monthlyData = []\<rparr>
   \<and> analytics_handler lc [] =
     \<lparr>totalIncome = 0, totalExpense = 0, balance = 0, expensesByCategory = [], monthlyData = []\<rparr>"
  by (simp add: calculateAnalytics_def analytics_handler_def own_entries_def js_sort_def)

text \<open>
  C10. A create request that has a type and a category and whose amount is falsy (0, the empty
  string, \<open>null\<close>, \<open>false\<close>, or none) is answered 400 with \<^verbatim>\<open>Missing required fields\<close>, and the
  store is as it was.
\<close>

theorem create_falsy_amount:
  assumes "get body (ascii ''type'') \<noteq> Undefined" and "get body (ascii ''category'') \<noteq> Undefined"
    and "\<not> truthy (get body (ascii ''amount''))"
  shows "post_transactions p (Inr body) store =
           (Response 400 (error_body ''Missing required fields''), store)"
proof -
  have "\<not> nullish body"
    using assms(1) by (cases body) (simp_all add: nullish_def)
  then show ?thesis
  proof (rule post_transactions_falsy)
    from assms(3)
    show "\<not> truthy (get body (ascii ''type'')) \<or> \<not> truthy (get body (ascii ''amount''))
          \<or> \<not> truthy (get body (ascii ''category''))"
      by simp
  qed
qed

text \<open>C10 on the amount 0 and on the empty amount.\<close>

theorem create_falsy_amount_witness:
  "get example_create_zero (ascii ''amount'') = Num (Finite 0)
   \<and> post_transactions example_platform (Inr example_create_zero) example_store =
       (Response 400 (error_body ''Missing required fields''), example_store)
   \<and> get example_create_empty_amount (ascii ''amount'') = Str []
   \<and> post_transactions example_platform (Inr example_create_empty_amount) example_store =
       (Response 400 (error_body ''Missing required fields''), example_store)"
proof -
  have z: "get example_create_zero (ascii ''type'') \<noteq> Undefined"
    "get example_create_zero (ascii ''category'') \<noteq> Undefined"
    "\<not> truthy (get example_create_zero (ascii ''amount''))"
    by (simp_all add: example_create_zero_def)
  have e: "get example_create_empty_amount (ascii ''type'') \<noteq> Undefined"
    "get example_create_empty_amount (ascii ''category'') \<noteq> Undefined"
    "\<not> truthy (get example_create_empty_amount (ascii ''amount''))"
    by (simp_all add: example_create_empty_amount_def)
  have "get example_create_zero (ascii ''amount'') = Num (Finite 0)"
    by (simp add: example_create_zero_def)
  moreover have "get example_create_empty_amount (ascii ''amount'') = Str []"
    by (simp add: example_create_empty_amount_def)
  moreover note create_falsy_amount[OF z, of example_platform example_store]
    create_falsy_amount[OF e, of example_platform example_store]
  ultimately show ?thesis
    by (intro conjI)
qed

text \<open>
  A transaction of amount zero can be created: the amount \<^verbatim>\<open>"0"\<close>, the text that the form
  sends for a zero, is truthy, it reads as 0, and the transaction of amount 0 is stored.
\<close>

theorem create_zero_text_created:
  "post_transactions example_platform (Inr example_create_zero_text) [] =
     (Response 200
        (Obj [(ascii ''success'', Bool True),
              (ascii ''transaction'',
                 Obj [(ascii ''id'', Str (ascii ''1700000000123_4fzyo82mv'')),
                      (ascii ''type'', Str (ascii ''expense'')),
                      (ascii ''amount'', Num (Finite 0)),
                      (ascii ''category'', Str (ascii ''food'')),
                      (ascii ''description'', Str []),
                      (ascii ''date'', Str (ascii ''2023-11-14'')),
                      (ascii ''createdAt'', Str (ascii ''2023-11-14T22:13:20.124Z'')),
                      (ascii ''source'', Str (ascii ''manual''))])]),
      [(ascii ''transaction:1700000000123_4fzyo82mv'',
        Obj [(ascii ''type'', Str (ascii ''expense'')),
             (ascii ''amount'', Num (Finite 0)),
             (ascii ''category'', Str (ascii ''food'')),
             (ascii ''description'', Str []),
             (ascii ''date'', Str (ascii ''2023-11-14'')),
             (ascii ''createdAt'', Str (ascii ''2023-11-14T22:13:20.124Z'')),
             (ascii ''source'', Str (ascii ''manual''))])])"
proof -
  have j: "json_value example_create_zero_text"
    by (simp add: example_create_zero_text_def)
  have t: "truthy (get example_create_zero_text (ascii ''type''))"
    "truthy (get example_create_zero_text (ascii ''amount''))"
    "truthy (get example_create_zero_text (ascii ''category''))"
    by (simp_all add: example_create_zero_text_def)
  have a: "parseFloat example_platform (get example_create_zero_text (ascii ''amount''))
           = Inr (Finite 0)"
    by (simp add: parseFloat_def example_create_zero_text_def example_platform_def decimal_defs
        ascii_def)
  have s: "storeError example_platform = None"
    by (simp add: example_platform_def)
  have d: "split_T_0 (isoDate example_platform) = ascii ''2023-11-14''"
    "isoCreatedAt example_platform = ascii ''2023-11-14T22:13:20.124Z''"
    by (simp_all add: example_platform_def split_T_0_def ascii_def)
  show ?thesis
    unfolding created_row[OF j t a s, of "[]"] example_id d
    by (simp add: example_create_zero_text_def js_or_def ascii_append)
qed

end
